theory Spec2Isabelle
  imports Complex_Main "HOL-Library.Multiset"
begin

section \<open>Data model\<close>

text \<open>
  The application is written in TypeScript. A JavaScript \<open>number\<close> is modelled as an
  exact rational (\<^typ>\<open>rat\<close>): every finite double is a rational, and the arithmetic of
  the code (sums of costs, a mean, a percentage) is read without IEEE rounding.
  Optional fields (\<open>field?: T\<close>) are \<^typ>\<open>'a option\<close>; \<open>Record<number, T>\<close> objects that
  start as \<open>{}\<close> are association lists from indices.
\<close>

datatype Severity = Minor | Moderate | Severe

datatype OverallSeverity = OvNone | OvMinor | OvModerate | OvSevere

fun overallOf :: "Severity \<Rightarrow> OverallSeverity" where
  "overallOf Minor = OvMinor"
| "overallOf Moderate = OvModerate"
| "overallOf Severe = OvSevere"

text \<open>\<open>interface DamageItem\<close> of \<open>DamageAssessment.tsx\<close>; the field \<open>type\<close> is \<open>dtype\<close> here.\<close>

record DamageItem =
  area :: string
  dtype :: string
  severity :: Severity
  estimatedCost :: rat
  confidence :: rat
  partsCost :: "rat option"
  laborHours :: "rat option"
  laborRate :: "rat option"

datatype InconsistencyType =
  color_mismatch | model_mismatch | multiple_vehicles | vin_mismatch | other

datatype FlagSeverity = warning | critical

text \<open>\<open>interface InconsistencyFlag\<close>; its fields \<open>type\<close>, \<open>severity\<close> and \<open>confidence\<close>
  carry the prefix \<open>flag\<close>.\<close>

record InconsistencyFlag =
  flagType :: InconsistencyType
  description :: string
  flagSeverity :: FlagSeverity
  flagConfidence :: rat

record ManualOverride =
  damageIndex :: nat
  originalCost :: rat
  adjustedCost :: rat
  reason :: string

text \<open>\<open>interface AssessmentResult\<close>; the total labor hours field \<open>laborHours\<close> is
  \<open>totalLaborHours\<close> here (the item field keeps the name).\<close>

record AssessmentResult =
  claimId :: string
  overallSeverity :: OverallSeverity
  hasDamage :: bool
  damages :: "DamageItem list"
  totalEstimate :: rat
  totalLaborHours :: rat
  partsRequired :: "string list"
  aiConfidence :: rat
  recommendations :: "string list"
  processingTime :: rat
  summary :: "string option"
  humanAssisted :: "bool option"
  manualOverrides :: "ManualOverride list option"
  overrideNotes :: "string option"
  hasInconsistencies :: "bool option"
  inconsistencies :: "InconsistencyFlag list option"

text \<open>JavaScript truthiness of an optional boolean: \<open>undefined\<close> and \<open>false\<close> are falsy.\<close>

fun truthy :: "bool option \<Rightarrow> bool" where
  "truthy (Some b) = b"
| "truthy None = False"

definition LOW_CONFIDENCE_THRESHOLD :: rat where
  "LOW_CONFIDENCE_THRESHOLD = 70"

definition SENIOR_APPROVAL_THRESHOLD :: rat where
  "SENIOR_APPROVAL_THRESHOLD = 5000"

definition HIGH_CONFIDENCE_THRESHOLD :: rat where
  "HIGH_CONFIDENCE_THRESHOLD = 85"

section \<open>Agent review (\<open>AgentReview\<close> component)\<close>

datatype ApprovalLevel = agent | senior

record FinalAssessment =
  finalAssessmentOf :: AssessmentResult
  agentNotes :: string
  adjustedTotalOf :: rat
  adjustments :: "ManualOverride list"
  approvedBy :: string
  approvalLevel :: ApprovalLevel
  approvedAt :: nat

text \<open>The component's state: \<open>adjustedDamages\<close> starts as the assessment's damage list.\<close>

record AgentReviewState =
  adjustedDamages :: "DamageItem list"
  notesInput :: string

definition agentReviewInit :: "AssessmentResult \<Rightarrow> AgentReviewState" where
  "agentReviewInit a = \<lparr>adjustedDamages = damages a, notesInput = []\<rparr>"

text \<open>\<open>adjustedDamages.reduce((sum, d) => sum + d.estimatedCost, 0)\<close>\<close>

definition adjustedTotal :: "AgentReviewState \<Rightarrow> rat" where
  "adjustedTotal s = foldl (\<lambda>sum d. sum + estimatedCost d) 0 (adjustedDamages s)"

definition requiresSeniorApproval :: "AssessmentResult \<Rightarrow> AgentReviewState \<Rightarrow> bool" where
  "requiresSeniorApproval a s \<longleftrightarrow>
     adjustedTotal s > SENIOR_APPROVAL_THRESHOLD \<or> overallSeverity a = OvSevere"

text \<open>
  \<open>handleCostAdjust(index, newCost)\<close>. The table renders one input per row of
  \<open>adjustedDamages\<close>, so the handler is only ever called with an index of the list; the
  model leaves the state alone for any other index.
\<close>

definition handleCostAdjust :: "nat \<Rightarrow> rat \<Rightarrow> AgentReviewState \<Rightarrow> AgentReviewState" where
  "handleCostAdjust index newCost s =
     (if index < length (adjustedDamages s)
      then s\<lparr>adjustedDamages :=
               (adjustedDamages s)[index := (adjustedDamages s ! index)\<lparr>estimatedCost := newCost\<rparr>]\<rparr>
      else s)"

text \<open>
  The \<open>forEach\<close> of \<open>handleApprove\<close>: it reads \<open>assessment.damages[index]\<close>, which throws
  when the index is past the end of the original list (\<open>None\<close> in the model).
\<close>

fun collectAdjustments ::
  "DamageItem list \<Rightarrow> DamageItem list \<Rightarrow> nat \<Rightarrow> ManualOverride list \<Rightarrow> ManualOverride list option"
where
  "collectAdjustments orig [] index acc = Some acc"
| "collectAdjustments orig (damage # rest) index acc =
     (if index < length orig
      then (if estimatedCost damage \<noteq> estimatedCost (orig ! index)
            then collectAdjustments orig rest (Suc index)
                   (acc @ [\<lparr>damageIndex = index,
                            originalCost = estimatedCost (orig ! index),
                            adjustedCost = estimatedCost damage,
                            reason = ''Manual adjustment by claims agent''\<rparr>])
            else collectAdjustments orig rest (Suc index) acc)
      else None)"

definition handleApprove ::
  "nat \<Rightarrow> AssessmentResult \<Rightarrow> AgentReviewState \<Rightarrow> FinalAssessment option" where
  "handleApprove now a s =
     (case collectAdjustments (damages a) (adjustedDamages s) 0 [] of
        None \<Rightarrow> None
      | Some adjs \<Rightarrow>
          Some \<lparr>finalAssessmentOf = a\<lparr>damages := adjustedDamages s, totalEstimate := adjustedTotal s\<rparr>,
                agentNotes = notesInput s,
                adjustedTotalOf = adjustedTotal s,
                adjustments = adjs,
                approvedBy = ''Agent Smith'',
                approvalLevel = (if requiresSeniorApproval a s then senior else agent),
                approvedAt = now\<rparr>)"

text \<open>A review session: the initial state followed by any number of cost edits.\<close>

definition agentReviewAfter :: "AssessmentResult \<Rightarrow> (nat \<times> rat) list \<Rightarrow> AgentReviewState" where
  "agentReviewAfter a edits =
     foldl (\<lambda>s (index, newCost). handleCostAdjust index newCost s) (agentReviewInit a) edits"

section \<open>Assessment step (\<open>DamageAssessment\<close> component): overrides and removals\<close>

text \<open>
  The override state lives in four \<open>Record<number, T>\<close> objects that start empty and are
  only ever extended by \<open>{ ...prev, [index]: v }\<close>. They are association lists with unique
  keys: \<open>lookup\<close> is \<open>r[index]\<close> (\<open>None\<close> for \<open>undefined\<close>), \<open>assign\<close> is the spread
  update, \<open>objectValues\<close> is \<open>Object.values\<close>.
\<close>

type_synonym 'a jsRecord = "(nat \<times> 'a) list"

fun lookup :: "'a jsRecord \<Rightarrow> nat \<Rightarrow> 'a option" where
  "lookup [] index = None"
| "lookup ((k, v) # r) index = (if k = index then Some v else lookup r index)"

fun assign :: "nat \<Rightarrow> 'a \<Rightarrow> 'a jsRecord \<Rightarrow> 'a jsRecord" where
  "assign index v [] = [(index, v)]"
| "assign index v ((k, w) # r) = (if k = index then (index, v) # r else (k, w) # assign index v r)"

definition objectValues :: "'a jsRecord \<Rightarrow> 'a list" where
  "objectValues r = map snd r"

record DamageMarker =
  markerX :: rat
  markerY :: rat
  imageIndex :: nat
  markerDescription :: "string option"

text \<open>
  The \<open>useState\<close> cells of the component that the modelled handlers read or write. The
  cells \<open>error\<close> and \<open>overrideNotes\<close> are \<open>errorNote\<close> and \<open>notesText\<close> here.
\<close>

record AssessState =
  isAnalyzing :: bool
  assessment :: "AssessmentResult option"
  errorNote :: "string option"
  needsHumanInput :: bool
  damageMarkers :: "DamageMarker list"
  overrideEnabled :: "bool jsRecord"
  adjustedCosts :: "rat jsRecord"
  overrideReasons :: "string jsRecord"
  notesText :: string
  removedItems :: "bool jsRecord"
  hasStartedAnalysis :: bool

text \<open>\<open>getAdjustedTotal\<close>: the \<open>forEach\<close> over the damage list with its running total \<open>tot\<close>.\<close>

fun adjustedTotalLoop :: "AssessState \<Rightarrow> DamageItem list \<Rightarrow> nat \<Rightarrow> rat \<Rightarrow> rat" where
  "adjustedTotalLoop st [] index tot = tot"
| "adjustedTotalLoop st (damage # rest) index tot =
     adjustedTotalLoop st rest (Suc index)
       (if truthy (lookup (removedItems st) index) then tot
        else if truthy (lookup (overrideEnabled st) index) \<and> lookup (adjustedCosts st) index \<noteq> None
        then tot + the (lookup (adjustedCosts st) index)
        else tot + estimatedCost damage)"

definition getAdjustedTotal :: "AssessState \<Rightarrow> rat" where
  "getAdjustedTotal st =
     (case assessment st of None \<Rightarrow> 0 | Some a \<Rightarrow> adjustedTotalLoop st (damages a) 0 0)"

definition hasActiveOverrides :: "AssessState \<Rightarrow> bool" where
  "hasActiveOverrides st = list_ex (\<lambda>v. v) (objectValues (overrideEnabled st))"

definition hasRemovedItems :: "AssessState \<Rightarrow> bool" where
  "hasRemovedItems st = list_ex (\<lambda>v. v) (objectValues (removedItems st))"

definition hasModifications :: "AssessState \<Rightarrow> bool" where
  "hasModifications st \<longleftrightarrow> hasActiveOverrides st \<or> hasRemovedItems st"

text \<open>The checkbox handler of a damage row (\<open>e.target.checked\<close> is \<open>checked\<close>).\<close>

definition toggleOverride :: "nat \<Rightarrow> bool \<Rightarrow> DamageItem \<Rightarrow> AssessState \<Rightarrow> AssessState" where
  "toggleOverride index checked damage st =
     (if checked \<and> lookup (adjustedCosts st) index = None
      then st\<lparr>overrideEnabled := assign index checked (overrideEnabled st),
              adjustedCosts := assign index (estimatedCost damage) (adjustedCosts st)\<rparr>
      else st\<lparr>overrideEnabled := assign index checked (overrideEnabled st)\<rparr>)"

text \<open>The cost input: \<open>parseInt(e.target.value) || 0\<close>, where \<open>parseInt\<close> gives an integer
  or \<open>NaN\<close> (\<open>None\<close>).\<close>

definition changeCost :: "nat \<Rightarrow> int option \<Rightarrow> AssessState \<Rightarrow> AssessState" where
  "changeCost index parsed st =
     st\<lparr>adjustedCosts :=
          assign index (case parsed of None \<Rightarrow> 0 | Some n \<Rightarrow> of_int n) (adjustedCosts st)\<rparr>"

definition changeReason :: "nat \<Rightarrow> string \<Rightarrow> AssessState \<Rightarrow> AssessState" where
  "changeReason index txt st = st\<lparr>overrideReasons := assign index txt (overrideReasons st)\<rparr>"

text \<open>The remove/restore button of a damage row.\<close>

definition toggleRemove :: "nat \<Rightarrow> AssessState \<Rightarrow> AssessState" where
  "toggleRemove index st =
     (if \<not> truthy (lookup (removedItems st) index)
      then st\<lparr>removedItems := assign index (\<not> truthy (lookup (removedItems st) index)) (removedItems st),
              overrideEnabled := assign index False (overrideEnabled st)\<rparr>
      else st\<lparr>removedItems := assign index (\<not> truthy (lookup (removedItems st) index)) (removedItems st)\<rparr>)"

text \<open>What the component renders, in the order of its early returns.\<close>

record DamageViewData =
  totalShown :: rat
  canAutoApprove :: bool
  quickApproveShown :: bool

datatype View =
  InitialView | AnalyzingView | HumanFeedbackView | NothingView | NoDamageView
  | DamageView DamageViewData

definition render :: "AssessState \<Rightarrow> View" where
  "render st =
     (if \<not> hasStartedAnalysis st \<and> \<not> isAnalyzing st \<and> assessment st = None then InitialView
      else if isAnalyzing st then AnalyzingView
      else if needsHumanInput st \<and> assessment st \<noteq> None then HumanFeedbackView
      else case assessment st of
             None \<Rightarrow> NothingView
           | Some a \<Rightarrow>
               if \<not> hasDamage a \<or> damages a = [] then NoDamageView
               else DamageView
                 \<lparr>totalShown = getAdjustedTotal st,
                  canAutoApprove =
                    (aiConfidence a \<ge> 85 \<and> getAdjustedTotal st \<le> SENIOR_APPROVAL_THRESHOLD
                     \<and> \<not> truthy (hasInconsistencies a)),
                  quickApproveShown =
                    ((aiConfidence a \<ge> 85 \<and> getAdjustedTotal st \<le> SENIOR_APPROVAL_THRESHOLD
                      \<and> \<not> truthy (hasInconsistencies a)) \<and> \<not> hasModifications st)\<rparr>)"


text \<open>
  The agent's actions on the damage table. A control exists only while it is rendered:
  rows belong to the damage view, the override checkbox to rows that are not removed, the
  cost and reason inputs to rows whose override is enabled.
\<close>

datatype Action =
  ToggleOverride nat bool
  | ChangeCost nat "int option"
  | ChangeReason nat string
  | ToggleRemove nat

definition rowShown :: "AssessState \<Rightarrow> nat \<Rightarrow> bool" where
  "rowShown st index =
     (case render st of
        DamageView v \<Rightarrow> (case assessment st of None \<Rightarrow> False | Some a \<Rightarrow> index < length (damages a))
      | _ \<Rightarrow> False)"

fun offered :: "AssessState \<Rightarrow> Action \<Rightarrow> bool" where
  "offered st (ToggleOverride index checked) =
     (rowShown st index \<and> \<not> truthy (lookup (removedItems st) index))"
| "offered st (ChangeCost index parsed) =
     (rowShown st index \<and> \<not> truthy (lookup (removedItems st) index)
      \<and> truthy (lookup (overrideEnabled st) index))"
| "offered st (ChangeReason index txt) =
     (rowShown st index \<and> \<not> truthy (lookup (removedItems st) index)
      \<and> truthy (lookup (overrideEnabled st) index))"
| "offered st (ToggleRemove index) = rowShown st index"

fun handle :: "Action \<Rightarrow> AssessState \<Rightarrow> AssessState" where
  "handle (ToggleOverride index checked) st =
     (case assessment st of
        None \<Rightarrow> st
      | Some a \<Rightarrow> toggleOverride index checked (damages a ! index) st)"
| "handle (ChangeCost index parsed) st = changeCost index parsed st"
| "handle (ChangeReason index txt) st = changeReason index txt st"
| "handle (ToggleRemove index) st = toggleRemove index st"

definition step :: "AssessState \<Rightarrow> Action \<Rightarrow> AssessState" where
  "step st act = (if offered st act then handle act st else st)"

definition runActions :: "AssessState \<Rightarrow> Action list \<Rightarrow> AssessState" where
  "runActions st acts = foldl step st acts"

text \<open>The state in which a finished analysis \<open>a\<close> is first shown.\<close>

definition showing :: "AssessmentResult \<Rightarrow> AssessState" where
  "showing a =
     \<lparr>isAnalyzing = False, assessment = Some a, errorNote = None, needsHumanInput = False,
      damageMarkers = [], overrideEnabled = [], adjustedCosts = [], overrideReasons = [],
      notesText = [], removedItems = [], hasStartedAnalysis = True\<rparr>"

text \<open>\<open>String.prototype.trim\<close> on the characters a text area can hold.\<close>

definition isSpace :: "char \<Rightarrow> bool" where
  "isSpace c \<longleftrightarrow> c \<in> set [CHR '' '', CHR 0x09, CHR 0x0A, CHR 0x0B, CHR 0x0C, CHR 0x0D]"

definition trim :: "string \<Rightarrow> string" where
  "trim s = rev (dropWhile isSpace (rev (dropWhile isSpace s)))"

text \<open>\<open>handleContinueWithOverrides\<close>: the filter and the \<open>forEach\<close> that collects the audit
  list, then the assessment handed to \<open>onContinue\<close> (\<open>None\<close>: nothing is handed on).\<close>

fun filterRemoved :: "AssessState \<Rightarrow> DamageItem list \<Rightarrow> nat \<Rightarrow> DamageItem list" where
  "filterRemoved st [] index = []"
| "filterRemoved st (damage # rest) index =
     (if \<not> truthy (lookup (removedItems st) index)
      then damage # filterRemoved st rest (Suc index)
      else filterRemoved st rest (Suc index))"

fun collectOverrides :: "AssessState \<Rightarrow> DamageItem list \<Rightarrow> nat \<Rightarrow> ManualOverride list" where
  "collectOverrides st [] index = []"
| "collectOverrides st (damage # rest) index =
     (if truthy (lookup (removedItems st) index) then collectOverrides st rest (Suc index)
      else if truthy (lookup (overrideEnabled st) index) \<and> lookup (adjustedCosts st) index \<noteq> None
      then \<lparr>damageIndex = index,
            originalCost = estimatedCost damage,
            adjustedCost = the (lookup (adjustedCosts st) index),
            reason = (case lookup (overrideReasons st) index of
                        None \<Rightarrow> ''Manual adjustment''
                      | Some r \<Rightarrow> if r = [] then ''Manual adjustment'' else r)\<rparr>
           # collectOverrides st rest (Suc index)
      else collectOverrides st rest (Suc index))"

definition handleContinueWithOverrides :: "AssessState \<Rightarrow> AssessmentResult option" where
  "handleContinueWithOverrides st =
     (case assessment st of
        None \<Rightarrow> None
      | Some a \<Rightarrow>
          Some (a\<lparr>damages := filterRemoved st (damages a) 0,
                  totalEstimate := getAdjustedTotal st,
                  manualOverrides :=
                    (if collectOverrides st (damages a) 0 \<noteq> []
                     then Some (collectOverrides st (damages a) 0) else None),
                  overrideNotes :=
                    (if trim (notesText st) \<noteq> [] then Some (trim (notesText st)) else None)\<rparr>))"

text \<open>
  The contract of the total, in the words of the specification: the sum, over the items
  that are not removed, of the override value where an override is enabled and of the
  original estimated cost elsewhere. The override value of a row is the number its cost
  input shows, \<open>adjustedCosts[index] ?? damage.estimatedCost\<close>.
\<close>

definition overrideValue :: "AssessState \<Rightarrow> AssessmentResult \<Rightarrow> nat \<Rightarrow> rat" where
  "overrideValue st a index =
     (case lookup (adjustedCosts st) index of
        Some v \<Rightarrow> v
      | None \<Rightarrow> estimatedCost (damages a ! index))"

definition itemContribution :: "AssessState \<Rightarrow> AssessmentResult \<Rightarrow> nat \<Rightarrow> rat" where
  "itemContribution st a index =
     (if truthy (lookup (overrideEnabled st) index) then overrideValue st a index
      else estimatedCost (damages a ! index))"

definition activeIndices :: "AssessState \<Rightarrow> AssessmentResult \<Rightarrow> nat list" where
  "activeIndices st a =
     filter (\<lambda>index. \<not> truthy (lookup (removedItems st) index)) [0..<length (damages a)]"

definition sumOfActiveItems :: "AssessState \<Rightarrow> AssessmentResult \<Rightarrow> rat" where
  "sumOfActiveItems st a = sum_list (map (itemContribution st a) (activeIndices st a))"

section \<open>The simulated assessment (\<open>generateMockAssessment\<close>)\<close>

definition LABOR_RATE :: rat where
  "LABOR_RATE = 115"

text \<open>\<open>Math.floor\<close> and \<open>Math.round\<close> (ties go up) on finite numbers.\<close>

definition jsFloor :: "rat \<Rightarrow> rat" where
  "jsFloor x = of_int \<lfloor>x\<rfloor>"

definition jsRound :: "rat \<Rightarrow> rat" where
  "jsRound x = of_int \<lfloor>x + 1 / 2\<rfloor>"

record DamageTemplate =
  tplArea :: string
  tplType :: string
  tplSeverity :: Severity
  tplPartsCost :: rat
  tplLaborHours :: rat

definition damageTypes :: "DamageTemplate list" where
  "damageTypes =
    [\<lparr>tplArea = ''Front Bumper'', tplType = ''Dent'', tplSeverity = Moderate,
      tplPartsCost = 550, tplLaborHours = 7 / 2\<rparr>,
     \<lparr>tplArea = ''Hood'', tplType = ''Scratch'', tplSeverity = Minor,
      tplPartsCost = 0, tplLaborHours = 2\<rparr>,
     \<lparr>tplArea = ''Front Left Fender'', tplType = ''Crumple damage'', tplSeverity = Severe,
      tplPartsCost = 2800, tplLaborHours = 13 / 2\<rparr>,
     \<lparr>tplArea = ''Headlight Assembly'', tplType = ''Cracked lens'', tplSeverity = Moderate,
      tplPartsCost = 450, tplLaborHours = 3 / 2\<rparr>,
     \<lparr>tplArea = ''Grille'', tplType = ''Broken'', tplSeverity = Minor,
      tplPartsCost = 180, tplLaborHours = 1 / 2\<rparr>,
     \<lparr>tplArea = ''Front Quarter Panel'', tplType = ''Structural damage'', tplSeverity = Severe,
      tplPartsCost = 3200, tplLaborHours = 8\<rparr>,
     \<lparr>tplArea = ''Windshield'', tplType = ''Minor chip'', tplSeverity = Minor,
      tplPartsCost = 0, tplLaborHours = 1 / 2\<rparr>,
     \<lparr>tplArea = ''Door Panel'', tplType = ''Deep scratch'', tplSeverity = Moderate,
      tplPartsCost = 950, tplLaborHours = 4\<rparr>]"

text \<open>
  The function draws from \<open>Math.random()\<close>. The draws are an input of the model:
  \<open>shuffled\<close> is the array after \<open>damageTypes.sort(() => Math.random() - 0.5)\<close>, and the
  other fields give, for the item at each position, the value \<open>Math.random()\<close> returned
  for its cost jitter, its confidence, its parts cost and its labor hours; \<open>timeDraw\<close> is
  the draw for the processing time. \<open>randomOk\<close> says what the source guarantees of them:
  the sort permutes the eight templates, and \<open>Math.random()\<close> lies in \<open>[0, 1)\<close>.
\<close>

record MockRandom =
  shuffled :: "DamageTemplate list"
  costJitter :: "nat \<Rightarrow> rat"
  confidenceDraw :: "nat \<Rightarrow> rat"
  partsDraw :: "nat \<Rightarrow> rat"
  laborDraw :: "nat \<Rightarrow> rat"
  timeDraw :: rat

definition unitInterval :: "rat \<Rightarrow> bool" where
  "unitInterval x \<longleftrightarrow> 0 \<le> x \<and> x < 1"

definition randomOk :: "MockRandom \<Rightarrow> bool" where
  "randomOk rnd \<longleftrightarrow>
     mset (shuffled rnd) = mset damageTypes
     \<and> (\<forall>i. unitInterval (costJitter rnd i)) \<and> (\<forall>i. unitInterval (confidenceDraw rnd i))
     \<and> (\<forall>i. unitInterval (partsDraw rnd i)) \<and> (\<forall>i. unitInterval (laborDraw rnd i))
     \<and> unitInterval (timeDraw rnd)"

text \<open>The first \<open>map\<close>: one damage item per selected template.\<close>

definition baseItem ::
  "MockRandom \<Rightarrow> rat option \<Rightarrow> Severity option \<Rightarrow> nat \<times> DamageTemplate \<Rightarrow> DamageItem" where
  "baseItem rnd overrideConfidence overrideSeverity p =
     (case p of (i, d) \<Rightarrow>
        \<lparr>area = tplArea d,
         dtype = tplType d,
         severity = (case overrideSeverity of Some s \<Rightarrow> s | None \<Rightarrow> tplSeverity d),
         estimatedCost =
           (tplPartsCost d + tplLaborHours d * LABOR_RATE) + jsFloor (costJitter rnd i * 100),
         confidence =
           (case overrideConfidence of
              Some c \<Rightarrow> c
            | None \<Rightarrow> 75 + jsFloor (confidenceDraw rnd i * 20)),
         partsCost = Some (tplPartsCost d),
         laborHours = Some (tplLaborHours d),
         laborRate = Some LABOR_RATE\<rparr>)"

text \<open>
  The second \<open>map\<close>, applied when a severity override is given. Its three branches have
  the same body with other constants: parts cost \<open>partsBase + floor(random * partsSpan)\<close>
  and labor hours \<open>laborBase + random * laborSpan\<close>.
\<close>

definition severityItem ::
  "MockRandom \<Rightarrow> Severity \<Rightarrow> rat \<Rightarrow> rat \<Rightarrow> rat \<Rightarrow> rat \<Rightarrow> nat \<times> DamageItem \<Rightarrow> DamageItem" where
  "severityItem rnd overrideSeverity partsBase partsSpan laborBase laborSpan p =
     (case p of (i, d) \<Rightarrow>
        d\<lparr>severity := overrideSeverity,
          partsCost := Some (partsBase + jsFloor (partsDraw rnd i * partsSpan)),
          laborHours := Some (jsRound ((laborBase + laborDraw rnd i * laborSpan) * 2) / 2),
          laborRate := Some LABOR_RATE,
          estimatedCost :=
            (partsBase + jsFloor (partsDraw rnd i * partsSpan))
            + (laborBase + laborDraw rnd i * laborSpan) * LABOR_RATE\<rparr>)"

definition selectDamages ::
  "MockRandom \<Rightarrow> nat \<Rightarrow> rat option \<Rightarrow> Severity option \<Rightarrow> DamageItem list" where
  "selectDamages rnd imageCount overrideConfidence overrideSeverity =
     (let numDamages = min (max 2 imageCount) (length damageTypes);
          selected = map (baseItem rnd overrideConfidence overrideSeverity)
                       (enumerate 0 (take numDamages (shuffled rnd)))
      in case overrideSeverity of
           None \<Rightarrow> selected
         | Some Severe \<Rightarrow>
             map (severityItem rnd Severe 2000 1500 5 3) (enumerate 0 selected)
         | Some Minor \<Rightarrow>
             map (severityItem rnd Minor 0 100 (1 / 2) (3 / 2))
               (enumerate 0 (take (min 2 (length selected)) selected))
         | Some Moderate \<Rightarrow>
             map (severityItem rnd Moderate 300 500 2 (5 / 2)) (enumerate 0 selected))"

definition mockOverallSeverity :: "Severity option \<Rightarrow> DamageItem list \<Rightarrow> OverallSeverity" where
  "mockOverallSeverity overrideSeverity selectedDamages =
     (case overrideSeverity of
        Some s \<Rightarrow> overallOf s
      | None \<Rightarrow>
          if list_ex (\<lambda>d. severity d = Severe) selectedDamages then OvSevere
          else if list_ex (\<lambda>d. severity d = Moderate) selectedDamages then OvModerate
          else OvMinor)"

definition mockAvgConfidence :: "rat option \<Rightarrow> DamageItem list \<Rightarrow> rat" where
  "mockAvgConfidence overrideConfidence selectedDamages =
     (case overrideConfidence of
        Some c \<Rightarrow> c
      | None \<Rightarrow>
          jsFloor (foldl (\<lambda>sum d. sum + confidence d) 0 selectedDamages
                   / of_nat (length selectedDamages)))"

definition mockInconsistencies :: "InconsistencyFlag list" where
  "mockInconsistencies =
     [\<lparr>flagType = color_mismatch,
       description = ''Images show vehicles of different colors (white vs blue detected)'',
       flagSeverity = critical, flagConfidence = 94\<rparr>,
      \<lparr>flagType = multiple_vehicles,
       description =
         ''Photos appear to show 2 different vehicles based on body style and features'',
       flagSeverity = critical, flagConfidence = 89\<rparr>]"

text \<open>
  \<open>stamp\<close> is \<open>Date.now().toString(36).toUpperCase()\<close>; \<open>toLocaleString\<close> of the threshold
  is written out for the \<open>en-US\<close> locale.
\<close>

definition mockRecommendations ::
  "rat \<Rightarrow> OverallSeverity \<Rightarrow> rat \<Rightarrow> bool option \<Rightarrow> string list" where
  "mockRecommendations avgConfidence overall totalEst hasInconsistencyOverride =
     (let recs =
        [if avgConfidence < LOW_CONFIDENCE_THRESHOLD
           then ''Low confidence assessment - human review recommended''
         else if overall = OvSevere
           then ''Recommend in-person inspection before authorization''
         else ''Damage consistent with reported incident'',
         if totalEst > SENIOR_APPROVAL_THRESHOLD
           then ''Estimate exceeds $5,000 threshold - senior adjuster review required''
         else ''Within standard authorization limits'',
         ''All repairs should be performed at certified body shop'']
      in if truthy hasInconsistencyOverride
         then ''CRITICAL: Vehicle inconsistencies detected - halt processing and investigate for potential fraud'' # recs
         else recs)"

definition generateMockAssessment ::
  "MockRandom \<Rightarrow> string \<Rightarrow> nat \<Rightarrow> rat option \<Rightarrow> Severity option \<Rightarrow> bool option \<Rightarrow> bool option
     \<Rightarrow> AssessmentResult" where
  "generateMockAssessment rnd stamp imageCount overrideConfidence overrideSeverity
       hasDamageOverride hasInconsistencyOverride =
     (if hasDamageOverride = Some False
      then \<lparr>claimId = ''CLM-'' @ stamp,
            overallSeverity = OvNone,
            hasDamage = False,
            damages = [],
            totalEstimate = 0,
            totalLaborHours = 0,
            partsRequired = [],
            aiConfidence = (case overrideConfidence of Some c \<Rightarrow> c | None \<Rightarrow> 85),
            recommendations =
              [''No visible damage detected'',
               ''Consider requesting additional photos if damage was reported''],
            processingTime = 23 / 10,
            summary = Some ''[Simulated] No damage detected in uploaded images'',
            humanAssisted = None, manualOverrides = None, overrideNotes = None,
            hasInconsistencies = None, inconsistencies = None\<rparr>
      else
        (let selectedDamages = selectDamages rnd imageCount overrideConfidence overrideSeverity;
             totalEst = foldl (\<lambda>sum d. sum + estimatedCost d) 0 selectedDamages;
             labor = foldl (\<lambda>sum d. sum + (case laborHours d of Some h \<Rightarrow> h | None \<Rightarrow> 0)) 0
                       selectedDamages;
             overall = mockOverallSeverity overrideSeverity selectedDamages;
             avgConfidence = mockAvgConfidence overrideConfidence selectedDamages
         in \<lparr>claimId = ''CLM-'' @ stamp,
             overallSeverity = overall,
             hasDamage = True,
             damages = selectedDamages,
             totalEstimate = totalEst,
             totalLaborHours = labor,
             partsRequired =
               map (\<lambda>d. area d @ '' replacement/repair'')
                 (filter (\<lambda>d. (case partsCost d of Some c \<Rightarrow> c | None \<Rightarrow> 0) > 0)
                    selectedDamages),
             aiConfidence = avgConfidence,
             recommendations =
               mockRecommendations avgConfidence overall totalEst hasInconsistencyOverride,
             processingTime = 23 / 10 + timeDraw rnd * (3 / 2),
             summary =
               Some (if truthy hasInconsistencyOverride
                     then ''[Simulated] ALERT: Multiple vehicle inconsistencies detected in uploaded images''
                     else ''[Simulated] Demo mode - using simulated assessment data''),
             humanAssisted = None, manualOverrides = None, overrideNotes = None,
             hasInconsistencies = hasInconsistencyOverride,
             inconsistencies =
               (if truthy hasInconsistencyOverride then Some mockInconsistencies else None)\<rparr>))"

section \<open>The analysis route (\<open>POST\<close> of \<open>api/analyze/route.ts\<close>)\<close>

text \<open>
  The JSON body the route returns on success, as the client reads it: every field may be
  absent. A total that is \<open>NaN\<close> is serialised as \<open>null\<close> and read as absent.
\<close>

record ApiResult =
  apiHasDamage :: "bool option"
  apiOverallSeverity :: "OverallSeverity option"
  apiDamages :: "DamageItem list option"
  apiTotalEstimate :: "rat option"
  apiLaborHours :: "rat option"
  apiPartsRequired :: "string list option"
  apiAiConfidence :: "rat option"
  apiRecommendations :: "string list option"
  apiSummary :: "string option"
  apiHasInconsistencies :: "bool option"
  apiInconsistencies :: "InconsistencyFlag list option"

text \<open>A thrown value: an \<open>Error\<close> with its message, or something that is not an \<open>Error\<close>.\<close>

datatype Thrown = ErrorWith string | NotAnError

datatype ModelReply = SdkThrows Thrown | NoTextBlock | TextBlock string

datatype RouteResponse = Json200 ApiResult | JsonError nat string

record AnalyzeRequest =
  requestImages :: "(string \<times> string) list option"
  apiKeyConfigured :: bool

definition routeAvgConfidence :: "DamageItem list \<Rightarrow> rat" where
  "routeAvgConfidence ds =
     (if length ds > 0
      then jsRound (foldl (\<lambda>sum d. sum + confidence d) 0 ds / of_nat (length ds))
      else 95)"

text \<open>
  \<open>parse\<close> stands for \<open>JSON.parse\<close> followed by reading the object as an
  \<open>AnalysisResult\<close>; it is \<open>None\<close> when the text is not JSON. A parsed object without a
  \<open>damages\<close> array makes \<open>analysis.damages.reduce\<close> throw a \<open>TypeError\<close>, which the outer
  \<open>catch\<close> turns into a 500 response like every other exception.
\<close>

definition POST ::
  "(string \<Rightarrow> ApiResult option) \<Rightarrow> AnalyzeRequest \<Rightarrow> ModelReply \<Rightarrow> RouteResponse" where
  "POST parse request reply =
     (if requestImages request = None \<or> requestImages request = Some []
        then JsonError 400 ''No images provided''
      else if \<not> apiKeyConfigured request
        then JsonError 500 ''API key not configured''
      else case reply of
             SdkThrows (ErrorWith m) \<Rightarrow> JsonError 500 m
           | SdkThrows NotAnError \<Rightarrow> JsonError 500 ''Analysis failed''
           | NoTextBlock \<Rightarrow> JsonError 500 ''No text response from Claude''
           | TextBlock txt \<Rightarrow>
               (case parse txt of
                  None \<Rightarrow> JsonError 500 ''Invalid response format from AI''
                | Some analysis \<Rightarrow>
                    (case apiDamages analysis of
                       None \<Rightarrow>
                         JsonError 500 ''Cannot read properties of undefined (reading 'reduce')''
                     | Some ds \<Rightarrow>
                         Json200 (analysis
                           \<lparr>apiTotalEstimate :=
                              (case apiLaborHours analysis of
                                 None \<Rightarrow> None
                               | Some h \<Rightarrow>
                                   Some (foldl (\<lambda>sum d. sum + estimatedCost d) 0 ds + h * 85)),
                            apiAiConfidence := Some (routeAvgConfidence ds)\<rparr>))))"

section \<open>Running the analysis (\<open>analyzeImages\<close>)\<close>

record TestControls =
  testConfidence :: rat
  testSeverity :: Severity
  testHasDamage :: bool
  testHasInconsistency :: bool

text \<open>
  What one call of \<open>analyzeImages\<close> leaves behind: the component state after its
  \<open>setState\<close> calls, the assessment its timers hand to \<open>onQuickApprove\<close> (if any), and
  how many requests it sent to the analysis route.
\<close>

record AnalyzeResult =
  stateAfter :: AssessState
  quickApproved :: "AssessmentResult option"
  fetchCalls :: nat

text \<open>Decimal printing of an array length, as the template literal does.\<close>

definition showDigit :: "nat \<Rightarrow> char" where
  "showDigit n = ''0123456789'' ! (n mod 10)"

fun showNat :: "nat \<Rightarrow> string" where
  "showNat n = (if n < 10 then [showDigit n] else showNat (n div 10) @ [showDigit (n mod 10)])"

text \<open>
  Simulated mode. \<open>elapsed\<close> is \<open>(Date.now() - startTime) / 1000\<close>; \<open>humanMarkers\<close> is
  \<open>None\<close> when the function is called without argument; \<open>onQuickApprove\<close> says whether
  the parent passed that callback.
\<close>

definition analyzeSimulated ::
  "MockRandom \<Rightarrow> string \<Rightarrow> rat \<Rightarrow> nat \<Rightarrow> TestControls \<Rightarrow> bool \<Rightarrow> DamageMarker list option
     \<Rightarrow> AssessState \<Rightarrow> AnalyzeResult" where
  "analyzeSimulated rnd stamp elapsed imageCount controls onQuickApprove humanMarkers st =
     (let generated =
            (generateMockAssessment rnd stamp imageCount (Some (testConfidence controls))
               (Some (testSeverity controls)) (Some (testHasDamage controls))
               (Some (testHasInconsistency controls)))\<lparr>processingTime := elapsed\<rparr>;
          mockResult =
            (case humanMarkers of
               None \<Rightarrow> generated
             | Some ms \<Rightarrow>
                 if length ms > 0
                 then generated
                   \<lparr>aiConfidence := min 95 (aiConfidence generated + 15),
                    humanAssisted := Some True,
                    summary := Some (''[Simulated] Human-assisted assessment with ''
                                     @ showNat (length ms) @ '' marked location(s)'')\<rparr>
                 else generated);
          isHighConf = (aiConfidence mockResult \<ge> HIGH_CONFIDENCE_THRESHOLD);
          isLowVal = (totalEstimate mockResult \<le> SENIOR_APPROVAL_THRESHOLD);
          noFraud = (\<not> truthy (hasInconsistencies mockResult))
      in if aiConfidence mockResult < LOW_CONFIDENCE_THRESHOLD \<and> humanMarkers = None
            \<and> hasDamage mockResult
         then \<lparr>stateAfter = st\<lparr>assessment := Some mockResult, needsHumanInput := True,
                                isAnalyzing := False\<rparr>,
               quickApproved = None, fetchCalls = 0\<rparr>
         else if hasDamage mockResult \<and> isHighConf \<and> isLowVal \<and> noFraud \<and> onQuickApprove
         then \<lparr>stateAfter = st\<lparr>assessment := Some mockResult, needsHumanInput := False,
                                isAnalyzing := False\<rparr>,
               quickApproved = Some mockResult, fetchCalls = 0\<rparr>
         else \<lparr>stateAfter = st\<lparr>assessment := Some mockResult, needsHumanInput := False,
                                isAnalyzing := False\<rparr>,
               quickApproved = None, fetchCalls = 0\<rparr>)"

text \<open>
  Live mode. What can happen to the one request: converting an image fails before
  anything is sent, \<open>fetch\<close> rejects, the response is not \<open>ok\<close> (with the \<open>error\<close> field of
  its body, if any), the body of a response is not JSON (\<open>response.json()\<close> rejects), or
  a 200 response carries a result.
\<close>

datatype FetchOutcome =
  ConversionFailed Thrown
  | FetchRejected Thrown
  | NotOk "string option"
  | BodyNotJson string
  | Ok200 ApiResult

text \<open>The value that reaches the \<open>catch\<close> block, if any.\<close>

fun caught :: "FetchOutcome \<Rightarrow> Thrown option" where
  "caught (ConversionFailed t) = Some t"
| "caught (FetchRejected t) = Some t"
| "caught (NotOk e) =
     Some (ErrorWith (case e of None \<Rightarrow> ''Analysis failed''
                      | Some m \<Rightarrow> if m = [] then ''Analysis failed'' else m))"
| "caught (BodyNotJson m) = Some (ErrorWith m)"
| "caught (Ok200 r) = None"

fun requestsSent :: "FetchOutcome \<Rightarrow> nat" where
  "requestsSent (ConversionFailed t) = 0"
| "requestsSent outcome = 1"

definition clientOutcome :: "RouteResponse \<Rightarrow> FetchOutcome" where
  "clientOutcome response =
     (case response of Json200 r \<Rightarrow> Ok200 r | JsonError status m \<Rightarrow> NotOk (Some m))"

definition orElse :: "'a option \<Rightarrow> 'a \<Rightarrow> 'a" where
  "orElse x d = (case x of Some v \<Rightarrow> v | None \<Rightarrow> d)"

definition analyzeLive ::
  "MockRandom \<Rightarrow> string \<Rightarrow> rat \<Rightarrow> nat \<Rightarrow> DamageMarker list option \<Rightarrow> FetchOutcome
     \<Rightarrow> AssessState \<Rightarrow> AnalyzeResult" where
  "analyzeLive rnd stamp elapsed imageCount humanMarkers outcome st =
     (case outcome of
        Ok200 result \<Rightarrow>
          (let assessmentResult =
             \<lparr>claimId = ''CLM-'' @ stamp,
              overallSeverity = orElse (apiOverallSeverity result) OvNone,
              hasDamage = truthy (apiHasDamage result),
              damages = orElse (apiDamages result) [],
              totalEstimate = orElse (apiTotalEstimate result) 0,
              totalLaborHours = orElse (apiLaborHours result) 0,
              partsRequired = orElse (apiPartsRequired result) [],
              aiConfidence = orElse (apiAiConfidence result) 0,
              recommendations = orElse (apiRecommendations result) [],
              processingTime = elapsed,
              summary = apiSummary result,
              humanAssisted = (case humanMarkers of None \<Rightarrow> None
                               | Some ms \<Rightarrow> Some (length ms > 0)),
              manualOverrides = None, overrideNotes = None,
              hasInconsistencies = Some (truthy (apiHasInconsistencies result)),
              inconsistencies = Some (orElse (apiInconsistencies result) [])\<rparr>
           in if aiConfidence assessmentResult < LOW_CONFIDENCE_THRESHOLD \<and> humanMarkers = None
                 \<and> hasDamage assessmentResult
              then \<lparr>stateAfter = st\<lparr>assessment := Some assessmentResult, needsHumanInput := True,
                                     isAnalyzing := False\<rparr>,
                    quickApproved = None, fetchCalls = requestsSent outcome\<rparr>
              else \<lparr>stateAfter = st\<lparr>assessment := Some assessmentResult, needsHumanInput := False,
                                     isAnalyzing := False\<rparr>,
                    quickApproved = None, fetchCalls = requestsSent outcome\<rparr>)
      | _ \<Rightarrow>
          \<lparr>stateAfter =
             st\<lparr>errorNote :=
                  Some (case caught outcome of Some (ErrorWith m) \<Rightarrow> m | _ \<Rightarrow> ''Analysis failed''),
                assessment :=
                  Some ((generateMockAssessment rnd stamp imageCount None None None None)
                     \<lparr>summary :=
                        Some (''[API Error] ''
                              @ (case caught outcome of Some (ErrorWith m) \<Rightarrow> m
                                 | _ \<Rightarrow> ''Unknown error'')
                              @ '' - using simulated data'')\<rparr>),
                needsHumanInput := False,
                isAnalyzing := False\<rparr>,
           quickApproved = None,
           fetchCalls = requestsSent outcome\<rparr>)"

section \<open>The feedback log (\<open>feedbackLoop\<close> module)\<close>

datatype InteractionType = auto_approved | quick_approved | agent_reviewed | rejected

datatype OverrideDirection = increased | decreased | none

record FeedbackDamage =
  fbArea :: string
  fbType :: string
  fbSeverity :: string
  fbEstimatedCost :: rat
  fbConfidence :: rat

text \<open>The \<open>aiAssessment\<close> and \<open>agentModifications\<close> objects of an entry; the fields of the
  first carry the prefix \<open>ai\<close>, and \<open>removedItems\<close> is \<open>removedIndices\<close> here.\<close>

record AiAssessment =
  aiDamages :: "FeedbackDamage list"
  aiTotalEstimate :: rat
  aiDeclaredConfidence :: rat
  aiOverallSeverity :: string

record AgentModifications =
  costAdjustments :: "ManualOverride list"
  removedIndices :: "nat list"
  addedNotes :: string
  finalTotal :: rat

record Metrics =
  estimateAccuracyDelta :: rat
  wasOverridden :: bool
  overrideDirection :: OverrideDirection
  confidenceWasAccurate :: bool

text \<open>
  \<open>Omit<FeedbackEntry, 'id' | 'timestamp' | 'metrics'>\<close> is the argument of
  \<open>recordFeedback\<close>; the full entry extends it by the three computed fields.
\<close>

record FeedbackInput =
  feedbackClaimId :: string
  aiAssessment :: AiAssessment
  agentModifications :: AgentModifications
  interactionType :: InteractionType
  reviewTimeSeconds :: rat
  agentId :: string

record FeedbackEntry = FeedbackInput +
  entryId :: string
  timestamp :: nat
  metrics :: Metrics

definition calculateMetrics :: "'a FeedbackInput_scheme \<Rightarrow> Metrics" where
  "calculateMetrics entry =
     (let originalTotal = aiTotalEstimate (aiAssessment entry);
          final = finalTotal (agentModifications entry);
          delta = (if originalTotal > 0 then ((final - originalTotal) / originalTotal) * 100 else 0);
          overridden = (length (costAdjustments (agentModifications entry)) > 0
                        \<or> length (removedIndices (agentModifications entry)) > 0);
          significantChange = (\<bar>delta\<bar> > 15)
      in \<lparr>estimateAccuracyDelta = delta,
          wasOverridden = overridden,
          overrideDirection =
            (if \<not> overridden then none
             else if final > originalTotal then increased else decreased),
          confidenceWasAccurate =
            (if aiDeclaredConfidence (aiAssessment entry) \<ge> 85
             then \<not> significantChange else significantChange)\<rparr>)"

text \<open>
  \<open>recordFeedback\<close> on the module's store, which is passed in and returned with the new
  entry pushed at its end. \<open>stamp\<close> and \<open>now\<close> are what the clock gives for the id and the
  timestamp.
\<close>

definition recordFeedback ::
  "string \<Rightarrow> nat \<Rightarrow> FeedbackInput \<Rightarrow> FeedbackEntry list \<Rightarrow> FeedbackEntry \<times> FeedbackEntry list" where
  "recordFeedback stamp now entry feedbackStore =
     (let fullEntry =
            FeedbackInput.extend entry
              (FeedbackEntry.fields (''FB-'' @ stamp) now (calculateMetrics entry))
      in (fullEntry, feedbackStore @ [fullEntry]))"

record FeedbackStats =
  totalAssessments :: nat
  autoApprovedRate :: rat
  overrideRate :: rat
  averageAccuracyDelta :: rat
  confidenceCalibration :: rat
  byInteractionType :: "(InteractionType \<times> nat) list"
  recentFeedback :: "FeedbackEntry list"

text \<open>\<open>byType[t] = (byType[t] || 0) + 1\<close> on an object whose keys are interaction types.\<close>

fun countType :: "InteractionType \<Rightarrow> (InteractionType \<times> nat) list \<Rightarrow> (InteractionType \<times> nat) list"
where
  "countType t [] = [(t, 0 + 1)]"
| "countType t ((k, n) # byType) =
     (if k = t then (k, n + 1) # byType else (k, n) # countType t byType)"

text \<open>\<open>slice(-10)\<close>: the last ten elements, or all of them when there are fewer.\<close>

definition sliceLast :: "nat \<Rightarrow> 'a list \<Rightarrow> 'a list" where
  "sliceLast n xs = drop (length xs - n) xs"

definition getFeedbackStats :: "FeedbackEntry list \<Rightarrow> FeedbackStats" where
  "getFeedbackStats feedbackStore =
     (if length feedbackStore = 0
      then \<lparr>totalAssessments = 0, autoApprovedRate = 0, overrideRate = 0,
            averageAccuracyDelta = 0, confidenceCalibration = 0,
            byInteractionType = [], recentFeedback = []\<rparr>
      else
        (let autoApproved =
               length (filter (\<lambda>f. interactionType f = auto_approved
                                   \<or> interactionType f = quick_approved) feedbackStore);
             overridden = length (filter (\<lambda>f. wasOverridden (metrics f)) feedbackStore);
             avgDelta =
               foldl (\<lambda>sum f. sum + \<bar>estimateAccuracyDelta (metrics f)\<bar>) 0 feedbackStore
               / of_nat (length feedbackStore);
             calibrationAccurate =
               length (filter (\<lambda>f. confidenceWasAccurate (metrics f)) feedbackStore);
             byType = foldl (\<lambda>byType f. countType (interactionType f) byType) [] feedbackStore
         in \<lparr>totalAssessments = length feedbackStore,
             autoApprovedRate = (of_nat autoApproved / of_nat (length feedbackStore)) * 100,
             overrideRate = (of_nat overridden / of_nat (length feedbackStore)) * 100,
             averageAccuracyDelta = avgDelta,
             confidenceCalibration =
               (of_nat calibrationAccurate / of_nat (length feedbackStore)) * 100,
             byInteractionType = byType,
             recentFeedback = rev (sliceLast 10 feedbackStore)\<rparr>))"

section \<open>Example data\<close>

definition exBumper :: DamageItem where
  "exBumper = \<lparr>area = ''Front Bumper'', dtype = ''Dent'', severity = Moderate,
               estimatedCost = 1000, confidence = 90,
               partsCost = Some 550, laborHours = Some (7 / 2), laborRate = Some 115\<rparr>"

definition exHood :: DamageItem where
  "exHood = \<lparr>area = ''Hood'', dtype = ''Scratch'', severity = Minor,
             estimatedCost = 2000, confidence = 88,
             partsCost = Some 0, laborHours = Some 2, laborRate = Some 115\<rparr>"

definition exAssessment :: AssessmentResult where
  "exAssessment =
     \<lparr>claimId = ''CLM-TEST'', overallSeverity = OvModerate, hasDamage = True,
      damages = [exBumper, exHood], totalEstimate = 3000, totalLaborHours = 11 / 2,
      partsRequired = [''Front Bumper replacement/repair''], aiConfidence = 89,
      recommendations = [], processingTime = 2, summary = None, humanAssisted = None,
      manualOverrides = None, overrideNotes = None, hasInconsistencies = None,
      inconsistencies = None\<rparr>"

text \<open>The agent enables the override of the first item and types 500.\<close>

definition exOverridden :: AssessState where
  "exOverridden =
     runActions (showing exAssessment) [ToggleOverride 0 True, ChangeCost 0 (Some 500)]"

definition exSubmitted :: AssessmentResult where
  "exSubmitted =
     exAssessment\<lparr>totalEstimate := 2500,
       manualOverrides := Some [\<lparr>damageIndex = 0, originalCost = 1000, adjustedCost = 500,
                                 reason = ''Manual adjustment''\<rparr>]\<rparr>"

text \<open>The same, and the agent then switches the override off again.\<close>

definition exDisabledAgain :: AssessState where
  "exDisabledAgain =
     runActions (showing exAssessment)
       [ToggleOverride 0 True, ChangeCost 0 (Some 500), ToggleOverride 0 False]"

section \<open>The aggregation rules in the words of the specification\<close>





text \<open>Random draws that leave the templates in their order and return one half each time.\<close>

definition exRandom :: MockRandom where
  "exRandom = \<lparr>shuffled = damageTypes, costJitter = (\<lambda>i. 1 / 2), confidenceDraw = (\<lambda>i. 1 / 2),
               partsDraw = (\<lambda>i. 1 / 2), laborDraw = (\<lambda>i. 1 / 2), timeDraw = 1 / 2\<rparr>"


section \<open>Example runs of the analysis\<close>

text \<open>The component before any analysis has run.\<close>

definition initialState :: AssessState where
  "initialState =
     \<lparr>isAnalyzing = False, assessment = None, errorNote = None, needsHumanInput = False,
      damageMarkers = [], overrideEnabled = [], adjustedCosts = [], overrideReasons = [],
      notesText = [], removedItems = [], hasStartedAnalysis = False\<rparr>"



text \<open>One point marked by the agent, and a service response with confidence 60.\<close>

definition exMarker :: DamageMarker where
  "exMarker = \<lparr>markerX = 40, markerY = 60, imageIndex = 0, markerDescription = None\<rparr>"

definition exApiLow :: ApiResult where
  "exApiLow =
     \<lparr>apiHasDamage = Some True, apiOverallSeverity = Some OvModerate,
      apiDamages = Some [exBumper\<lparr>confidence := 60\<rparr>], apiTotalEstimate = Some 1000,
      apiLaborHours = Some 0, apiPartsRequired = Some [], apiAiConfidence = Some 60,
      apiRecommendations = Some [], apiSummary = Some ''Dent in the front bumper'',
      apiHasInconsistencies = Some False, apiInconsistencies = Some []\<rparr>"


definition exLowControls :: TestControls where
  "exLowControls =
     \<lparr>testConfidence = 60, testSeverity = Moderate, testHasDamage = True,
      testHasInconsistency = False\<rparr>"

text \<open>A request with one image, the API key being configured.\<close>

definition exRequest :: AnalyzeRequest where
  "exRequest = \<lparr>requestImages = Some [(''aGVsbG8='', ''image/jpeg'')], apiKeyConfigured = True\<rparr>"

section \<open>The feedback log: stored metrics and examples\<close>

text \<open>The metrics of the entry that \<open>recordFeedback\<close> has just pushed onto the store.\<close>

definition storedMetrics ::
  "string \<Rightarrow> nat \<Rightarrow> FeedbackInput \<Rightarrow> FeedbackEntry list \<Rightarrow> Metrics" where
  "storedMetrics stamp now entry feedbackStore =
     metrics (last (snd (recordFeedback stamp now entry feedbackStore)))"

text \<open>A recorded cost adjustment, an entry with given totals, and a log of two entries.\<close>

definition exAdjustment :: ManualOverride where
  "exAdjustment = \<lparr>damageIndex = 0, originalCost = 1000, adjustedCost = 1200,
                   reason = ''Hidden damage behind the bumper''\<rparr>"

definition exEntry :: "rat \<Rightarrow> rat \<Rightarrow> ManualOverride list \<Rightarrow> InteractionType \<Rightarrow> FeedbackInput" where
  "exEntry orig fin adjs kind =
     \<lparr>feedbackClaimId = ''CLM-TEST'',
      aiAssessment = \<lparr>aiDamages = [], aiTotalEstimate = orig, aiDeclaredConfidence = 90,
                      aiOverallSeverity = ''Moderate''\<rparr>,
      agentModifications = \<lparr>costAdjustments = adjs, removedIndices = [], addedNotes = [],
                            finalTotal = fin\<rparr>,
      interactionType = kind, reviewTimeSeconds = 40, agentId = ''agent-1''\<rparr>"

definition exStore :: "FeedbackEntry list" where
  "exStore =
     snd (recordFeedback ''B'' 2 (exEntry 1000 1000 [] quick_approved)
       (snd (recordFeedback ''A'' 1 (exEntry 1000 1200 [exAdjustment] agent_reviewed) [])))"

text \<open>How many entries of the log have interaction type t.\<close>

definition typeCount :: "FeedbackEntry list \<Rightarrow> InteractionType \<Rightarrow> nat" where
  "typeCount feedbackStore t = count_list (map interactionType feedbackStore) t"

section \<open>Properties of the agent review\<close>

lemma handleCostAdjust_length:
  "length (adjustedDamages (handleCostAdjust i c s)) = length (adjustedDamages s)"
  by (simp add: handleCostAdjust_def)

lemma agentReview_foldl_length:
  "length (adjustedDamages (foldl (\<lambda>s (index, newCost). handleCostAdjust index newCost s) s edits))
     = length (adjustedDamages s)"
  by (induction edits arbitrary: s) (auto simp: handleCostAdjust_length)

lemma agentReviewAfter_length:
  "length (adjustedDamages (agentReviewAfter a edits)) = length (damages a)"
  by (simp add: agentReviewAfter_def agentReview_foldl_length agentReviewInit_def)

lemma collectAdjustments_total:
  "index + length ds \<le> length orig \<Longrightarrow> \<exists>adjs. collectAdjustments orig ds index acc = Some adjs"
  by (induction ds arbitrary: index acc) auto

text \<open>
  C6. Every approval made in the agent review produces a FinalAssessment, and its approval
  level is \<open>senior\<close> exactly when the adjusted total exceeds 5000 or the assessment's
  overall severity is Severe; otherwise it is \<open>agent\<close>.
\<close>

theorem C6_approval_level:
  "\<exists>fa. handleApprove now a (agentReviewAfter a edits) = Some fa
      \<and> adjustedTotalOf fa = adjustedTotal (agentReviewAfter a edits)
      \<and> (approvalLevel fa = senior) =
          (adjustedTotalOf fa > 5000 \<or> overallSeverity a = OvSevere)
      \<and> (approvalLevel fa = agent) =
          (\<not> (adjustedTotalOf fa > 5000 \<or> overallSeverity a = OvSevere))"
proof -
  let ?s = "agentReviewAfter a edits"
  have "0 + length (adjustedDamages ?s) \<le> length (damages a)"
    by (simp add: agentReviewAfter_length)
  then obtain adjs where "collectAdjustments (damages a) (adjustedDamages ?s) 0 [] = Some adjs"
    using collectAdjustments_total by blast
  then show ?thesis
    by (simp add: handleApprove_def requiresSeniorApproval_def SENIOR_APPROVAL_THRESHOLD_def)
qed

theorem C6_approval_level_witness:
  "\<exists>fa. handleApprove 0 exAssessment (agentReviewAfter exAssessment [(0, 6000)]) = Some fa
      \<and> adjustedTotalOf fa = 8000 \<and> approvalLevel fa = senior"
  using C6_approval_level [of 0 exAssessment "[(0, 6000)]"]
  by (auto simp: agentReviewAfter_def agentReviewInit_def handleCostAdjust_def adjustedTotal_def
      exAssessment_def exBumper_def exHood_def)

section \<open>Properties of the assessment step\<close>

lemmas ex_defs = exAssessment_def exBumper_def exHood_def showing_def
lemmas ui_defs = runActions_def step_def render_def rowShown_def toggleOverride_def changeCost_def
  changeReason_def toggleRemove_def getAdjustedTotal_def SENIOR_APPROVAL_THRESHOLD_def

lemma adjustedTotalLoop_sum:
  "(\<And>j. j < length ds \<Longrightarrow> ds ! j = damages a ! (k + j)) \<Longrightarrow>
   adjustedTotalLoop st ds k tot =
     tot + sum_list (map (itemContribution st a)
             (filter (\<lambda>i. \<not> truthy (lookup (removedItems st) i)) [k..<k + length ds]))"
proof (induction ds arbitrary: k tot)
  case Nil
  then show ?case by simp
next
  case (Cons d ds)
  have hd: "d = damages a ! k" using Cons.prems [of 0] by simp
  have tl: "\<And>j. j < length ds \<Longrightarrow> ds ! j = damages a ! (Suc k + j)"
    using Cons.prems [of "Suc j" for j] by simp
  have upt: "[k..<k + length (d # ds)] = k # [Suc k..<Suc k + length ds]"
    using upt_conv_Cons [of k "k + length (d # ds)"] by simp
  show ?case
    unfolding upt
    by (simp add: Cons.IH [OF tl] hd itemContribution_def overrideValue_def split: option.splits)
qed

lemma getAdjustedTotal_sum:
  "assessment st = Some a \<Longrightarrow> getAdjustedTotal st = sumOfActiveItems st a"
  using adjustedTotalLoop_sum [of "damages a" a 0 st 0]
  by (simp add: getAdjustedTotal_def sumOfActiveItems_def activeIndices_def)

lemma step_assessment: "assessment (step st act) = assessment st"
  by (cases act) (auto simp: step_def toggleOverride_def changeCost_def changeReason_def toggleRemove_def split: option.splits)

lemma runActions_assessment: "assessment (runActions st acts) = assessment st"
  unfolding runActions_def by (induction acts arbitrary: st) (auto simp: step_assessment)

lemma assessment_step_total:
  "assessment st = Some a \<Longrightarrow>
   getAdjustedTotal (runActions st acts) = sumOfActiveItems (runActions st acts) a
   \<and> map_option totalEstimate (handleContinueWithOverrides (runActions st acts))
       = Some (sumOfActiveItems (runActions st acts) a)
   \<and> (\<forall>v. render (runActions st acts) = DamageView v \<longrightarrow>
          totalShown v = sumOfActiveItems (runActions st acts) a)"
proof -
  assume a: "assessment st = Some a"
  have b: "assessment (runActions st acts) = Some a" by (simp add: runActions_assessment a)
  show ?thesis
    using getAdjustedTotal_sum [OF b]
    by (auto simp: handleContinueWithOverrides_def b render_def split: if_splits)
qed

lemma exOverridden_eval:
  "exOverridden = (showing exAssessment)\<lparr>overrideEnabled := [(0, True)], adjustedCosts := [(0, 500)]\<rparr>"
  by (simp add: exOverridden_def ex_defs ui_defs)

text \<open>
  C1. In the assessment step the total that is shown and the total that is handed on equal
  the sum over the items that are not removed (lemma \<open>assessment_step_total\<close>). The agent
  review that follows shows and approves another number: \<open>handleContinueWithOverrides\<close>
  hands on the items with their original costs, and \<open>AgentReview\<close> sums those. With the
  first of two items (1000 and 2000) overridden to 500, the assessment step shows and
  submits 2500; the review step shows 3000 and approves 3000.
\<close>

theorem C1_review_step_drops_override:
  "handleContinueWithOverrides exOverridden = Some exSubmitted
   \<and> getAdjustedTotal exOverridden = 2500
   \<and> sumOfActiveItems exOverridden exAssessment = 2500
   \<and> totalEstimate exSubmitted = 2500
   \<and> adjustedTotal (agentReviewInit exSubmitted) = 3000
   \<and> map_option adjustedTotalOf (handleApprove now exSubmitted (agentReviewInit exSubmitted))
       = Some 3000
   \<and> map_option (\<lambda>fa. totalEstimate (finalAssessmentOf fa))
        (handleApprove now exSubmitted (agentReviewInit exSubmitted)) = Some 3000"
  by (simp add: exOverridden_eval exSubmitted_def ex_defs handleContinueWithOverrides_def
      getAdjustedTotal_def sumOfActiveItems_def activeIndices_def itemContribution_def
      overrideValue_def trim_def agentReviewInit_def adjustedTotal_def handleApprove_def
      upt_rec)

lemma lookup_assign: "lookup (assign i v r) j = (if j = i then Some v else lookup r j)"
  by (induction r) auto

text \<open>
  C7 (as amended). Enabling the override of an item for which no adjusted value is stored
  seeds the adjustable value with the item's original estimated cost; when a value is
  already stored (the override was enabled before), enabling keeps that value. Disabling
  the override makes the item contribute its original cost to the total, the other items
  unchanged. Removing an item takes it out of the total and switches its override off.
\<close>

theorem C7_override_toggle_and_removal:
  "assessment st = Some a \<Longrightarrow>
   (offered st (ToggleOverride index True) \<longrightarrow>
      truthy (lookup (overrideEnabled (step st (ToggleOverride index True))) index)
      \<and> overrideValue (step st (ToggleOverride index True)) a index =
          (case lookup (adjustedCosts st) index of
             None \<Rightarrow> estimatedCost (damages a ! index)
           | Some v \<Rightarrow> v))
   \<and> (offered st (ToggleOverride index False) \<longrightarrow>
      getAdjustedTotal (step st (ToggleOverride index False)) =
        sum_list (map (\<lambda>j. if j = index then estimatedCost (damages a ! j)
                            else itemContribution st a j) (activeIndices st a)))
   \<and> (offered st (ToggleRemove index) \<and> \<not> truthy (lookup (removedItems st) index) \<longrightarrow>
      \<not> truthy (lookup (overrideEnabled (step st (ToggleRemove index))) index)
      \<and> index \<notin> set (activeIndices (step st (ToggleRemove index)) a)
      \<and> getAdjustedTotal (step st (ToggleRemove index)) =
          sum_list (map (itemContribution st a) (filter (\<lambda>j. j \<noteq> index) (activeIndices st a))))"
proof -
  assume a: "assessment st = Some a"
  have p1: "offered st (ToggleOverride index True) \<Longrightarrow>
      truthy (lookup (overrideEnabled (step st (ToggleOverride index True))) index)
      \<and> overrideValue (step st (ToggleOverride index True)) a index =
          (case lookup (adjustedCosts st) index of
             None \<Rightarrow> estimatedCost (damages a ! index)
           | Some v \<Rightarrow> v)"
    by (simp add: step_def a toggleOverride_def lookup_assign overrideValue_def split: option.splits)
  have p2: "getAdjustedTotal (step st (ToggleOverride index False)) =
        sum_list (map (\<lambda>j. if j = index then estimatedCost (damages a ! j)
                            else itemContribution st a j) (activeIndices st a))"
    if off: "offered st (ToggleOverride index False)"
  proof -
    let ?st' = "step st (ToggleOverride index False)"
    have st': "?st' = st\<lparr>overrideEnabled := assign index False (overrideEnabled st)\<rparr>"
      using off by (simp add: step_def a toggleOverride_def)
    have "getAdjustedTotal ?st' = sumOfActiveItems ?st' a"
      by (rule getAdjustedTotal_sum) (simp add: step_assessment a)
    also have "\<dots> = sum_list (map (\<lambda>j. if j = index then estimatedCost (damages a ! j)
                            else itemContribution st a j) (activeIndices st a))"
    proof -
      have act: "activeIndices ?st' a = activeIndices st a"
        by (simp add: st' activeIndices_def)
      show ?thesis
        unfolding sumOfActiveItems_def act
        by (rule arg_cong [where f = sum_list], rule map_cong)
           (auto simp: st' itemContribution_def overrideValue_def lookup_assign)
    qed
    finally show ?thesis .
  qed
  have p3: "\<not> truthy (lookup (overrideEnabled (step st (ToggleRemove index))) index)
      \<and> index \<notin> set (activeIndices (step st (ToggleRemove index)) a)
      \<and> getAdjustedTotal (step st (ToggleRemove index)) =
          sum_list (map (itemContribution st a) (filter (\<lambda>j. j \<noteq> index) (activeIndices st a)))"
    if off: "offered st (ToggleRemove index)" and nr: "\<not> truthy (lookup (removedItems st) index)"
  proof -
    let ?st' = "step st (ToggleRemove index)"
    have st': "?st' = st\<lparr>removedItems := assign index True (removedItems st),
                          overrideEnabled := assign index False (overrideEnabled st)\<rparr>"
      using off nr by (simp add: step_def toggleRemove_def)
    have act: "activeIndices ?st' a = filter (\<lambda>j. j \<noteq> index) (activeIndices st a)"
      unfolding st' activeIndices_def by (auto simp: lookup_assign intro: filter_cong)
    have "getAdjustedTotal ?st' = sumOfActiveItems ?st' a"
      by (rule getAdjustedTotal_sum) (simp add: step_assessment a)
    also have "\<dots> = sum_list (map (itemContribution st a) (filter (\<lambda>j. j \<noteq> index) (activeIndices st a)))"
      unfolding sumOfActiveItems_def act
      by (rule arg_cong [where f = sum_list], rule map_cong)
         (auto simp: st' itemContribution_def overrideValue_def lookup_assign)
    finally have tot: "getAdjustedTotal ?st' =
        sum_list (map (itemContribution st a) (filter (\<lambda>j. j \<noteq> index) (activeIndices st a)))" .
    show ?thesis
      using tot act by (simp add: st' lookup_assign)
  qed
  show ?thesis using p1 p2 p3 by blast
qed

text \<open>The three cases of C7 at the two-item example.\<close>

theorem C7_override_toggle_and_removal_witness:
  "overrideValue (step (showing exAssessment) (ToggleOverride 0 True)) exAssessment 0 = 1000
   \<and> getAdjustedTotal (step exOverridden (ToggleOverride 0 False)) = 3000
   \<and> getAdjustedTotal (step exOverridden (ToggleRemove 0)) = 2000
   \<and> \<not> truthy (lookup (overrideEnabled (step exOverridden (ToggleRemove 0))) 0)"
  using C7_override_toggle_and_removal [of "showing exAssessment" exAssessment 0]
        C7_override_toggle_and_removal [of exOverridden exAssessment 0]
  by (simp add: exOverridden_eval ex_defs ui_defs activeIndices_def itemContribution_def
      overrideValue_def upt_rec)

text \<open>
  C7 as stated fails: after the agent typed 500 and switched the override off, enabling
  it again shows 500, not the original cost 1000.
\<close>

theorem C7_reenabled_override_keeps_old_value:
  "offered exDisabledAgain (ToggleOverride 0 True)
   \<and> \<not> truthy (lookup (overrideEnabled exDisabledAgain) 0)
   \<and> truthy (lookup (overrideEnabled (step exDisabledAgain (ToggleOverride 0 True))) 0)
   \<and> overrideValue (step exDisabledAgain (ToggleOverride 0 True)) exAssessment 0 = 500
   \<and> estimatedCost (damages exAssessment ! 0) = 1000"
  by (simp add: exDisabledAgain_def ex_defs ui_defs overrideValue_def)

section \<open>Properties of the aggregation\<close>

lemma exRandom_ok: "randomOk exRandom"
  by (simp add: randomOk_def exRandom_def unitInterval_def)



lemma length_shuffled: "randomOk rnd \<Longrightarrow> length (shuffled rnd) = 8"
proof -
  assume "randomOk rnd"
  then have "mset (shuffled rnd) = mset damageTypes" by (simp add: randomOk_def)
  then have "length (shuffled rnd) = length damageTypes" by (rule mset_eq_length)
  then show ?thesis by (simp add: damageTypes_def)
qed

lemma length_damageTypes: "length damageTypes = 8"
  by (simp add: damageTypes_def)

lemma selectDamages_length:
  "randomOk rnd \<Longrightarrow> 2 \<le> length (selectDamages rnd n oc os)"
  by (auto simp: selectDamages_def Let_def length_shuffled length_damageTypes
      split: option.splits Severity.splits)

lemma selectDamages_nonempty: "randomOk rnd \<Longrightarrow> selectDamages rnd n oc os \<noteq> []"
  using selectDamages_length [of rnd n oc os] by auto



lemma foldl_plus: "foldl (\<lambda>sum d. sum + f d) (a::rat) xs = a + sum_list (map f xs)"
  by (induction xs arbitrary: a) (auto simp: algebra_simps)













section \<open>Properties of the routing\<close>

lemmas threshold_defs = LOW_CONFIDENCE_THRESHOLD_def SENIOR_APPROVAL_THRESHOLD_def
  HIGH_CONFIDENCE_THRESHOLD_def

lemma generate_confidence_override:
  "aiConfidence (generateMockAssessment rnd stamp n (Some c) os hdo hio) = c"
  by (simp add: generateMockAssessment_def Let_def mockAvgConfidence_def)




lemma generate_hasDamage:
  "hasDamage (generateMockAssessment rnd stamp n oc os hdo hio) = (hdo \<noteq> Some False)"
  by (simp add: generateMockAssessment_def Let_def)

text \<open>
  C5 (as amended). When an analysis run without markers yields a confidence below 70 and
  damage, the component asks for human markers instead of showing the result, in
  simulated and in live mode. When the simulated analysis is re-run with at least one
  marker, the confidence becomes the minimum of 95 and the confidence plus 15, and the
  result is marked human-assisted. When the live analysis is re-run with at least one
  marker, the result is marked human-assisted and carries the confidence the service
  returned.
\<close>

theorem C5_marker_request_and_boost:
  "(needsHumanInput (stateAfter (analyzeSimulated rnd stamp elapsed n controls handler None st))
      = (testConfidence controls < 70 \<and> testHasDamage controls)
    \<and> (needsHumanInput (stateAfter (analyzeSimulated rnd stamp elapsed n controls handler None st))
        \<longrightarrow> render (stateAfter (analyzeSimulated rnd stamp elapsed n controls handler None st))
              = HumanFeedbackView
            \<and> quickApproved (analyzeSimulated rnd stamp elapsed n controls handler None st) = None))
   \<and> (needsHumanInput (stateAfter (analyzeLive rnd stamp elapsed n None (Ok200 result) st))
      = (orElse (apiAiConfidence result) 0 < 70 \<and> truthy (apiHasDamage result))
    \<and> (needsHumanInput (stateAfter (analyzeLive rnd stamp elapsed n None (Ok200 result) st))
        \<longrightarrow> render (stateAfter (analyzeLive rnd stamp elapsed n None (Ok200 result) st))
              = HumanFeedbackView))
   \<and> (ms \<noteq> [] \<longrightarrow>
        (\<exists>m. assessment (stateAfter (analyzeSimulated rnd stamp elapsed n controls handler (Some ms) st))
               = Some m
           \<and> aiConfidence m = min 95 (testConfidence controls + 15)
           \<and> humanAssisted m = Some True)
        \<and> \<not> needsHumanInput
             (stateAfter (analyzeSimulated rnd stamp elapsed n controls handler (Some ms) st)))
   \<and> (ms \<noteq> [] \<longrightarrow>
        (\<exists>m. assessment (stateAfter (analyzeLive rnd stamp elapsed n (Some ms) (Ok200 result) st))
               = Some m
           \<and> aiConfidence m = orElse (apiAiConfidence result) 0
           \<and> humanAssisted m = Some True)
        \<and> \<not> needsHumanInput
             (stateAfter (analyzeLive rnd stamp elapsed n (Some ms) (Ok200 result) st)))"
proof -
  note g = generate_confidence_override generate_hasDamage
  let ?S = "analyzeSimulated rnd stamp elapsed n controls handler None st"
  have s1: "needsHumanInput (stateAfter ?S) = (testConfidence controls < 70 \<and> testHasDamage controls)"
    unfolding analyzeSimulated_def Let_def threshold_defs by (simp add: g)
  have s2: "needsHumanInput (stateAfter ?S) \<longrightarrow>
        render (stateAfter ?S) = HumanFeedbackView \<and> quickApproved ?S = None"
    unfolding analyzeSimulated_def Let_def threshold_defs by (simp add: g render_def)
  let ?L = "analyzeLive rnd stamp elapsed n None (Ok200 result) st"
  have l1: "needsHumanInput (stateAfter ?L)
      = (orElse (apiAiConfidence result) 0 < 70 \<and> truthy (apiHasDamage result))"
    unfolding analyzeLive_def Let_def threshold_defs by simp
  have l2: "needsHumanInput (stateAfter ?L) \<longrightarrow> render (stateAfter ?L) = HumanFeedbackView"
    unfolding analyzeLive_def Let_def threshold_defs by (simp add: render_def)
  let ?S' = "analyzeSimulated rnd stamp elapsed n controls handler (Some ms) st"
  have s3: "(\<exists>m. assessment (stateAfter ?S') = Some m
           \<and> aiConfidence m = min 95 (testConfidence controls + 15)
           \<and> humanAssisted m = Some True)
        \<and> \<not> needsHumanInput (stateAfter ?S')" if "ms \<noteq> []"
    using that unfolding analyzeSimulated_def Let_def threshold_defs by (simp add: g)
  let ?L' = "analyzeLive rnd stamp elapsed n (Some ms) (Ok200 result) st"
  have l3: "(\<exists>m. assessment (stateAfter ?L') = Some m
           \<and> aiConfidence m = orElse (apiAiConfidence result) 0
           \<and> humanAssisted m = Some True)
        \<and> \<not> needsHumanInput (stateAfter ?L')" if "ms \<noteq> []"
    using that unfolding analyzeLive_def Let_def threshold_defs by simp
  show ?thesis using s1 s2 l1 l2 s3 l3 by blast
qed

text \<open>C5 at confidence 60 with damage: markers are requested; with one marker, 75.\<close>

theorem C5_marker_request_and_boost_witness:
  "needsHumanInput (stateAfter (analyzeSimulated exRandom ''T'' 2 3 exLowControls False None
      initialState))
   \<and> render (stateAfter (analyzeSimulated exRandom ''T'' 2 3 exLowControls False None
      initialState)) = HumanFeedbackView
   \<and> map_option aiConfidence (assessment (stateAfter (analyzeSimulated exRandom ''T'' 2 3
        exLowControls False (Some [exMarker]) initialState))) = Some 75
   \<and> map_option humanAssisted (assessment (stateAfter (analyzeSimulated exRandom ''T'' 2 3
        exLowControls False (Some [exMarker]) initialState))) = Some (Some True)"
  using C5_marker_request_and_boost [of exRandom "''T''" 2 3 exLowControls False initialState
          exApiLow "[exMarker]"]
  by (auto simp: exLowControls_def)

text \<open>
  C5 as stated fails: a live re-run with one marker whose response declares confidence 60
  is shown with confidence 60, not 75.
\<close>

theorem C5_live_rerun_has_no_boost:
  "map_option aiConfidence (assessment (stateAfter (analyzeLive exRandom ''T'' 2 1
        (Some [exMarker]) (Ok200 exApiLow) initialState))) = Some 60
   \<and> map_option humanAssisted (assessment (stateAfter (analyzeLive exRandom ''T'' 2 1
        (Some [exMarker]) (Ok200 exApiLow) initialState))) = Some (Some True)
   \<and> apiAiConfidence exApiLow = Some 60
   \<and> min 95 (60 + 15) = (75 :: rat)"
  by (simp add: analyzeLive_def exApiLow_def orElse_def threshold_defs)

lemma analyzeLive_failure:
  "caught outcome = Some t \<Longrightarrow>
   analyzeLive rnd stamp elapsed n markers outcome st =
     \<lparr>stateAfter =
        st\<lparr>errorNote := Some (case t of ErrorWith m \<Rightarrow> m | NotAnError \<Rightarrow> ''Analysis failed''),
           assessment :=
             Some ((generateMockAssessment rnd stamp n None None None None)
               \<lparr>summary := Some (''[API Error] ''
                   @ (case t of ErrorWith m \<Rightarrow> m | NotAnError \<Rightarrow> ''Unknown error'')
                   @ '' - using simulated data'')\<rparr>),
           needsHumanInput := False,
           isAnalyzing := False\<rparr>,
      quickApproved = None,
      fetchCalls = requestsSent outcome\<rparr>"
  by (cases outcome) (auto simp: analyzeLive_def split: Thrown.splits)

text \<open>
  C10. Whatever makes the external call fail (image conversion, a rejected request, a
  response that is not ok, a body that is not JSON), the component ends with the
  assessment of \<open>generateMockAssessment\<close>, the generator of simulated mode, carrying an
  \<open>[API Error]\<close> summary; the error is recorded, at most one request was sent, and the
  component shows the damage view (it neither keeps analysing nor waits for markers). A
  reply of the vision model that is not JSON reaches the component as such a failure.
\<close>

theorem C10_fallback_on_failure:
  "(randomOk rnd \<and> caught outcome = Some t \<longrightarrow>
      assessment (stateAfter (analyzeLive rnd stamp elapsed n markers outcome st))
        = Some ((generateMockAssessment rnd stamp n None None None None)
             \<lparr>summary := Some (''[API Error] ''
                 @ (case t of ErrorWith m \<Rightarrow> m | NotAnError \<Rightarrow> ''Unknown error'')
                 @ '' - using simulated data'')\<rparr>)
      \<and> errorNote (stateAfter (analyzeLive rnd stamp elapsed n markers outcome st))
          = Some (case t of ErrorWith m \<Rightarrow> m | NotAnError \<Rightarrow> ''Analysis failed'')
      \<and> \<not> isAnalyzing (stateAfter (analyzeLive rnd stamp elapsed n markers outcome st))
      \<and> \<not> needsHumanInput (stateAfter (analyzeLive rnd stamp elapsed n markers outcome st))
      \<and> (\<exists>v. render (stateAfter (analyzeLive rnd stamp elapsed n markers outcome st))
              = DamageView v)
      \<and> fetchCalls (analyzeLive rnd stamp elapsed n markers outcome st) \<le> 1)
   \<and> (requestImages request \<noteq> None \<and> requestImages request \<noteq> Some []
       \<and> apiKeyConfigured request \<and> parse txt = None \<longrightarrow>
        caught (clientOutcome (POST parse request (TextBlock txt)))
          = Some (ErrorWith ''Invalid response format from AI''))
   \<and> assessment (stateAfter (analyzeSimulated rnd stamp elapsed n controls handler None st))
        = Some ((generateMockAssessment rnd stamp n (Some (testConfidence controls))
                   (Some (testSeverity controls)) (Some (testHasDamage controls))
                   (Some (testHasInconsistency controls)))\<lparr>processingTime := elapsed\<rparr>)"
proof -
  let ?R = "analyzeLive rnd stamp elapsed n markers outcome st"
  let ?mock = "generateMockAssessment rnd stamp n None None None None"
  have fail: "assessment (stateAfter ?R)
        = Some (?mock\<lparr>summary := Some (''[API Error] ''
                 @ (case t of ErrorWith m \<Rightarrow> m | NotAnError \<Rightarrow> ''Unknown error'')
                 @ '' - using simulated data'')\<rparr>)
      \<and> errorNote (stateAfter ?R)
          = Some (case t of ErrorWith m \<Rightarrow> m | NotAnError \<Rightarrow> ''Analysis failed'')
      \<and> \<not> isAnalyzing (stateAfter ?R) \<and> \<not> needsHumanInput (stateAfter ?R)
      \<and> (\<exists>v. render (stateAfter ?R) = DamageView v)
      \<and> fetchCalls ?R \<le> 1"
    if ok: "randomOk rnd" and c: "caught outcome = Some t"
  proof -
    have dmg: "hasDamage ?mock" "damages ?mock \<noteq> []"
      using selectDamages_nonempty [OF ok, of n None None]
      by (simp_all add: generateMockAssessment_def Let_def)
    have calls: "requestsSent outcome \<le> 1" by (cases outcome) simp_all
    show ?thesis
      unfolding analyzeLive_failure [OF c]
      using dmg calls by (simp add: render_def)
  qed
  have malformed: "caught (clientOutcome (POST parse request (TextBlock txt)))
          = Some (ErrorWith ''Invalid response format from AI'')"
    if "requestImages request \<noteq> None" "requestImages request \<noteq> Some []"
       "apiKeyConfigured request" "parse txt = None"
    using that by (simp add: POST_def clientOutcome_def)
  have sim: "assessment (stateAfter (analyzeSimulated rnd stamp elapsed n controls handler None st))
        = Some ((generateMockAssessment rnd stamp n (Some (testConfidence controls))
                   (Some (testSeverity controls)) (Some (testHasDamage controls))
                   (Some (testHasInconsistency controls)))\<lparr>processingTime := elapsed\<rparr>)"
    by (simp add: analyzeSimulated_def Let_def)
  show ?thesis using fail malformed sim by blast
qed

text \<open>C10 for a reply that is not JSON.\<close>

theorem C10_fallback_on_failure_witness:
  "randomOk exRandom
   \<and> POST (\<lambda>txt. None) exRequest (TextBlock ''I cannot see any vehicle.'')
       = JsonError 500 ''Invalid response format from AI''
   \<and> map_option summary (assessment (stateAfter (analyzeLive exRandom ''T'' 2 1 None
        (clientOutcome (POST (\<lambda>txt. None) exRequest (TextBlock ''I cannot see any vehicle.'')))
        initialState)))
       = Some (Some ''[API Error] Invalid response format from AI - using simulated data'')
   \<and> map_option hasDamage (assessment (stateAfter (analyzeLive exRandom ''T'' 2 1 None
        (clientOutcome (POST (\<lambda>txt. None) exRequest (TextBlock ''I cannot see any vehicle.'')))
        initialState))) = Some True"
  using C10_fallback_on_failure [of exRandom
          "clientOutcome (POST (\<lambda>txt. None) exRequest (TextBlock ''I cannot see any vehicle.''))"
          "ErrorWith ''Invalid response format from AI''" "''T''" 2 1 None initialState
          exRequest "\<lambda>txt. None" "''I cannot see any vehicle.''" exLowControls False]
        exRandom_ok
  by (simp add: POST_def exRequest_def clientOutcome_def generate_hasDamage)

section \<open>Properties of the feedback log\<close>

text \<open>
  C8 (as amended). \<open>recordFeedback\<close> pushes the entry with its metrics computed at that
  moment: the delta is (finalTotal - originalTotal) / originalTotal * 100 when
  originalTotal is positive and 0 otherwise; wasOverridden holds exactly when there is a
  cost adjustment or a removed item; the direction is \<open>none\<close> when nothing was overridden
  (even if the totals differ), and for an overridden entry \<open>increased\<close> when finalTotal is
  above originalTotal and \<open>decreased\<close> when it is below; confidenceWasAccurate holds
  exactly when (aiConfidence >= 85 and |delta| <= 15) or (aiConfidence < 85 and
  |delta| > 15).
\<close>

theorem C8_stored_metrics:
  "snd (recordFeedback stamp now entry feedbackStore)
     = feedbackStore @ [fst (recordFeedback stamp now entry feedbackStore)]
   \<and> (aiTotalEstimate (aiAssessment entry) > 0 \<longrightarrow>
        estimateAccuracyDelta (storedMetrics stamp now entry feedbackStore) =
          (finalTotal (agentModifications entry) - aiTotalEstimate (aiAssessment entry))
            / aiTotalEstimate (aiAssessment entry) * 100)
   \<and> (aiTotalEstimate (aiAssessment entry) \<le> 0 \<longrightarrow>
        estimateAccuracyDelta (storedMetrics stamp now entry feedbackStore) = 0)
   \<and> wasOverridden (storedMetrics stamp now entry feedbackStore) =
        (costAdjustments (agentModifications entry) \<noteq> []
         \<or> removedIndices (agentModifications entry) \<noteq> [])
   \<and> (\<not> wasOverridden (storedMetrics stamp now entry feedbackStore) \<longrightarrow>
        overrideDirection (storedMetrics stamp now entry feedbackStore) = none)
   \<and> (wasOverridden (storedMetrics stamp now entry feedbackStore)
       \<and> finalTotal (agentModifications entry) > aiTotalEstimate (aiAssessment entry) \<longrightarrow>
        overrideDirection (storedMetrics stamp now entry feedbackStore) = increased)
   \<and> (wasOverridden (storedMetrics stamp now entry feedbackStore)
       \<and> finalTotal (agentModifications entry) < aiTotalEstimate (aiAssessment entry) \<longrightarrow>
        overrideDirection (storedMetrics stamp now entry feedbackStore) = decreased)
   \<and> confidenceWasAccurate (storedMetrics stamp now entry feedbackStore) =
        ((aiDeclaredConfidence (aiAssessment entry) \<ge> 85
          \<and> \<bar>estimateAccuracyDelta (storedMetrics stamp now entry feedbackStore)\<bar> \<le> 15)
         \<or> (aiDeclaredConfidence (aiAssessment entry) < 85
          \<and> \<bar>estimateAccuracyDelta (storedMetrics stamp now entry feedbackStore)\<bar> > 15))"
proof -
  have m: "storedMetrics stamp now entry feedbackStore = calculateMetrics entry"
    by (simp add: storedMetrics_def recordFeedback_def Let_def FeedbackInput.defs
        FeedbackEntry.defs)
  show ?thesis
    unfolding m
    by (auto simp: recordFeedback_def calculateMetrics_def Let_def)
qed

text \<open>C8 at originalTotal 1000 and finalTotal 1200, with and without a recorded adjustment,
  and at originalTotal 0.\<close>

theorem C8_stored_metrics_witness:
  "estimateAccuracyDelta (storedMetrics ''A'' 1 (exEntry 1000 1200 [exAdjustment] agent_reviewed) [])
     = 20
   \<and> overrideDirection (storedMetrics ''A'' 1 (exEntry 1000 1200 [exAdjustment] agent_reviewed) [])
     = increased
   \<and> overrideDirection (storedMetrics ''A'' 1 (exEntry 1000 1200 [] agent_reviewed) []) = none
   \<and> \<not> confidenceWasAccurate
        (storedMetrics ''A'' 1 (exEntry 1000 1200 [exAdjustment] agent_reviewed) [])
   \<and> estimateAccuracyDelta (storedMetrics ''A'' 1 (exEntry 0 100 [exAdjustment] agent_reviewed) [])
     = 0"
  using C8_stored_metrics [of "''A''" 1 "exEntry 1000 1200 [exAdjustment] agent_reviewed" "[]"]
        C8_stored_metrics [of "''A''" 1 "exEntry 1000 1200 [] agent_reviewed" "[]"]
        C8_stored_metrics [of "''A''" 1 "exEntry 0 100 [exAdjustment] agent_reviewed" "[]"]
  by (simp add: exEntry_def)

text \<open>
  C8 as stated fails: for an overridden entry with originalTotal 0 and finalTotal 100 the
  delta is 0 and the direction is \<open>increased\<close>; the direction compares the totals.
\<close>

theorem C8_direction_is_not_the_sign_of_delta:
  "estimateAccuracyDelta (storedMetrics ''A'' 1 (exEntry 0 100 [exAdjustment] agent_reviewed) [])
     = 0
   \<and> wasOverridden (storedMetrics ''A'' 1 (exEntry 0 100 [exAdjustment] agent_reviewed) [])
   \<and> overrideDirection (storedMetrics ''A'' 1 (exEntry 0 100 [exAdjustment] agent_reviewed) [])
     = increased"
  by (simp add: storedMetrics_def recordFeedback_def Let_def FeedbackInput.defs
      FeedbackEntry.defs calculateMetrics_def exEntry_def)

lemma map_of_countType:
  "map_of (countType t byType) k =
     (if k = t then Some (case map_of byType t of None \<Rightarrow> 1 | Some c \<Rightarrow> c + 1)
      else map_of byType k)"
  by (induction byType) auto

lemma fst_countType: "set (map fst (countType t byType)) = insert t (set (map fst byType))"
proof (induction byType)
  case Nil
  show ?case by simp
next
  case (Cons p byType)
  obtain k c where p: "p = (k, c)" by (cases p)
  show ?case
  proof (cases "k = t")
    case True
    then show ?thesis by (simp add: p)
  next
    case False
    then show ?thesis using Cons.IH by (simp add: p insert_commute)
  qed
qed

lemma distinct_countType:
  "distinct (map fst byType) \<Longrightarrow> distinct (map fst (countType t byType))"
proof (induction byType)
  case Nil
  show ?case by simp
next
  case (Cons p byType)
  obtain k c where p: "p = (k, c)" by (cases p)
  from Cons have d: "k \<notin> set (map fst byType)" "distinct (map fst (countType t byType))"
    by (simp_all add: p)
  show ?case
    using Cons.prems d fst_countType [of t byType] by (auto simp: p)
qed

lemma byType_fold:
  "map_of (foldl (\<lambda>byType f. countType (interactionType f) byType) acc xs) k =
     (case map_of acc k of
        None \<Rightarrow> if typeCount xs k = 0 then None else Some (typeCount xs k)
      | Some c \<Rightarrow> Some (c + typeCount xs k))"
proof (induction xs arbitrary: acc)
  case Nil
  show ?case by (simp add: typeCount_def split: option.splits)
next
  case (Cons f xs)
  show ?case
    by (simp add: Cons.IH map_of_countType typeCount_def split: option.splits)
qed

lemma byType_distinct:
  "distinct (map fst acc) \<Longrightarrow>
   distinct (map fst (foldl (\<lambda>byType f. countType (interactionType f) byType) acc xs))"
  by (induction xs arbitrary: acc) (auto simp: distinct_countType)

text \<open>
  C9. On the empty log \<open>getFeedbackStats\<close> returns 0 in every numeric field, an empty
  grouping and an empty recent list. On a non-empty log it returns the number of entries,
  the percentage of auto- or quick-approved entries, the percentage of overridden entries,
  the mean absolute delta, the percentage of entries with accurate confidence, the number
  of entries of each interaction type that occurs (one key per type), and the last ten
  entries, newest first.
\<close>

theorem C9_feedback_stats:
  "getFeedbackStats [] =
     \<lparr>totalAssessments = 0, autoApprovedRate = 0, overrideRate = 0, averageAccuracyDelta = 0,
      confidenceCalibration = 0, byInteractionType = [], recentFeedback = []\<rparr>
   \<and> (feedbackStore \<noteq> [] \<longrightarrow>
        totalAssessments (getFeedbackStats feedbackStore) = length feedbackStore
        \<and> autoApprovedRate (getFeedbackStats feedbackStore) =
            of_nat (typeCount feedbackStore auto_approved + typeCount feedbackStore quick_approved)
              / of_nat (length feedbackStore) * 100
        \<and> overrideRate (getFeedbackStats feedbackStore) =
            of_nat (card {i. i < length feedbackStore \<and> wasOverridden (metrics (feedbackStore ! i))})
              / of_nat (length feedbackStore) * 100
        \<and> averageAccuracyDelta (getFeedbackStats feedbackStore) =
            sum_list (map (\<lambda>f. \<bar>estimateAccuracyDelta (metrics f)\<bar>) feedbackStore)
              / of_nat (length feedbackStore)
        \<and> confidenceCalibration (getFeedbackStats feedbackStore) =
            of_nat (card {i. i < length feedbackStore
                           \<and> confidenceWasAccurate (metrics (feedbackStore ! i))})
              / of_nat (length feedbackStore) * 100
        \<and> map_of (byInteractionType (getFeedbackStats feedbackStore)) t =
            (if typeCount feedbackStore t = 0 then None else Some (typeCount feedbackStore t))
        \<and> distinct (map fst (byInteractionType (getFeedbackStats feedbackStore)))
        \<and> recentFeedback (getFeedbackStats feedbackStore) = take 10 (rev feedbackStore))"
proof -
  have empty: "getFeedbackStats [] =
     \<lparr>totalAssessments = 0, autoApprovedRate = 0, overrideRate = 0, averageAccuracyDelta = 0,
      confidenceCalibration = 0, byInteractionType = [], recentFeedback = []\<rparr>"
    by (simp add: getFeedbackStats_def)
  have auto_count: "length (filter (\<lambda>f. interactionType f = auto_approved
                                   \<or> interactionType f = quick_approved) xs)
      = typeCount xs auto_approved + typeCount xs quick_approved" for xs :: "FeedbackEntry list"
    by (induction xs) (auto simp: typeCount_def)
  have nonempty: "totalAssessments (getFeedbackStats feedbackStore) = length feedbackStore
        \<and> autoApprovedRate (getFeedbackStats feedbackStore) =
            of_nat (typeCount feedbackStore auto_approved + typeCount feedbackStore quick_approved)
              / of_nat (length feedbackStore) * 100
        \<and> overrideRate (getFeedbackStats feedbackStore) =
            of_nat (card {i. i < length feedbackStore \<and> wasOverridden (metrics (feedbackStore ! i))})
              / of_nat (length feedbackStore) * 100
        \<and> averageAccuracyDelta (getFeedbackStats feedbackStore) =
            sum_list (map (\<lambda>f. \<bar>estimateAccuracyDelta (metrics f)\<bar>) feedbackStore)
              / of_nat (length feedbackStore)
        \<and> confidenceCalibration (getFeedbackStats feedbackStore) =
            of_nat (card {i. i < length feedbackStore
                           \<and> confidenceWasAccurate (metrics (feedbackStore ! i))})
              / of_nat (length feedbackStore) * 100
        \<and> map_of (byInteractionType (getFeedbackStats feedbackStore)) t =
            (if typeCount feedbackStore t = 0 then None else Some (typeCount feedbackStore t))
        \<and> distinct (map fst (byInteractionType (getFeedbackStats feedbackStore)))
        \<and> recentFeedback (getFeedbackStats feedbackStore) = take 10 (rev feedbackStore)"
    if ne: "feedbackStore \<noteq> []"
  proof -
    have bt: "map_of (foldl (\<lambda>byType f. countType (interactionType f) byType) [] feedbackStore) t
        = (if typeCount feedbackStore t = 0 then None else Some (typeCount feedbackStore t))"
      by (simp add: byType_fold)
    have bd: "distinct (map fst (foldl (\<lambda>byType f. countType (interactionType f) byType) []
        feedbackStore))"
      by (rule byType_distinct) simp
    show ?thesis
      using ne bt bd
      by (simp add: getFeedbackStats_def Let_def auto_count foldl_plus sliceLast_def take_rev
          length_filter_conv_card)
  qed
  show ?thesis using empty nonempty by blast
qed

text \<open>C9 at a log of two entries.\<close>

theorem C9_feedback_stats_witness:
  "totalAssessments (getFeedbackStats exStore) = 2
   \<and> autoApprovedRate (getFeedbackStats exStore) = 50
   \<and> overrideRate (getFeedbackStats exStore) = 50
   \<and> averageAccuracyDelta (getFeedbackStats exStore) = 10
   \<and> byInteractionType (getFeedbackStats exStore) = [(agent_reviewed, 1), (quick_approved, 1)]
   \<and> map entryId (recentFeedback (getFeedbackStats exStore)) = [''FB-B'', ''FB-A'']"
  using C9_feedback_stats [of exStore agent_reviewed]
  by (simp add: exStore_def recordFeedback_def Let_def FeedbackInput.defs FeedbackEntry.defs
      calculateMetrics_def exEntry_def getFeedbackStats_def sliceLast_def exAdjustment_def)

end
